theory Spec2Isabelle
  imports
    Main
    "HOL-Library.Word"
    "HOL-Library.Char_ord"
    "HOL-Library.List_Lexorder"
    "HOL-Library.Multiset"
begin

unbundle bit_operations_syntax

section \<open>JavaScript values and strings\<close>

text \<open>
  The signing and verification engine of \<^verbatim>\<open>Crypto\<close> (the second module of
  \<^verbatim>\<open>submit-close.ts\<close>, lines 47 to 254) is embedded here. A \<^verbatim>\<open>Uint8Array\<close> is
  a list of bytes, a JavaScript string is a \<^typ>\<open>string\<close>.
\<close>

type_synonym byte = "8 word"

text \<open>
  The value that \<^verbatim>\<open>JSON.parse\<close> can return. The type of numbers is a parameter:
  the code only asks whether a number is truthy and what its string form is. \<open>JObj\<close>
  lists the own properties of an object in order; their names are distinct.
\<close>

datatype 'n json =
    JNull
  | JBool bool
  | JNum 'n
  | JStr string
  | JArr "'n json list"
  | JObj "(string \<times> 'n json) list"

text \<open>
  The errors of the module. The code throws \<^verbatim>\<open>Error\<close> objects that differ in their
  message; each message is one constructor, named as the specification names it:
  \<^item> \<open>MissingSignature\<close>: "Expected signature property to exist" (line 189);
  \<^item> \<open>MalformedSignature\<close>: "Expected valid JWS with detached content" (lines 194, 201);
  \<^item> \<open>MalformedHeader\<close>: "Expected JWS header to contain alg and kid" (line 208);
  \<^item> \<open>NotVerificationMethod\<close>: "Expected kid in JWS header to dereference to a DID
    Document Verification Method" (line 213);
  \<^item> \<open>UnresolvableKey\<close>: the same message ending in "with publicKeyJwk" (line 219);
  \<^item> \<open>UnsupportedAlgorithm id\<close>: "\<open>id\<close> not supported" (line 155);
  \<^item> \<open>IntegrityMismatch\<close>: "Integrity mismatch" (line 241);
  \<^item> \<open>TypeError\<close>: the \<^verbatim>\<open>TypeError\<close> that the JavaScript runtime throws when a
    property of \<^verbatim>\<open>null\<close> or \<^verbatim>\<open>undefined\<close> is read or destructured, when a value
    that is not a function is called, or when an object has no primitive value;
  \<^item> \<open>Thrown m\<close>: an exception with message \<open>m\<close> thrown by a library function or a
    collaborator, which the code lets propagate.
\<close>

datatype error =
    MissingSignature
  | MalformedSignature
  | MalformedHeader
  | NotVerificationMethod
  | UnresolvableKey
  | UnsupportedAlgorithm string
  | IntegrityMismatch
  | TypeError
  | Thrown string

text \<open>
  \<^verbatim>\<open>s.split(sep)\<close> for a separator of one character: the pieces between the
  occurrences of the separator, so there is always one piece more than there are
  separators. A character that is not the separator extends the first piece of the rest;
  the rest always has a first piece (lemma \<open>js_split_not_Nil\<close>).
\<close>

fun js_split :: "char \<Rightarrow> string \<Rightarrow> string list" where
  "js_split sep [] = [[]]"
| "js_split sep (c # cs) =
     (if c = sep then [] # js_split sep cs
      else (case js_split sep cs of
              [] \<Rightarrow> [[c]]
            | piece # pieces \<Rightarrow> (c # piece) # pieces))"

text \<open>
  \<^verbatim>\<open>value[name]\<close> for a name that no prototype defines (\<^verbatim>\<open>alg\<close> and \<^verbatim>\<open>kid\<close> are
  such names): reading a property of \<^verbatim>\<open>null\<close> throws, an object gives its own
  property, every other value gives \<^verbatim>\<open>undefined\<close> (\<open>None\<close>).
\<close>

fun js_get :: "'n json \<Rightarrow> string \<Rightarrow> error + 'n json option" where
  "js_get JNull name = Inl TypeError"
| "js_get (JObj props) name = Inr (map_of props name)"
| "js_get v name = Inr None"

text \<open>Truthiness: what \<^verbatim>\<open>!value\<close> negates.\<close>

fun js_truthy :: "('n \<Rightarrow> bool) \<Rightarrow> 'n json \<Rightarrow> bool" where
  "js_truthy nt JNull = False"
| "js_truthy nt (JBool b) = b"
| "js_truthy nt (JNum n) = nt n"
| "js_truthy nt (JStr s) = (s \<noteq> [])"
| "js_truthy nt (JArr xs) = True"
| "js_truthy nt (JObj props) = True"

fun join_comma :: "string list \<Rightarrow> string" where
  "join_comma [] = []"
| "join_comma [s] = s"
| "join_comma (s # t # ss) = s @ '','' @ join_comma (t # ss)"

text \<open>
  The string that a template literal makes of a value. An array joins the strings of its
  elements with commas, \<^verbatim>\<open>null\<close> elements giving the empty string. An object parsed
  from JSON gives \<^verbatim>\<open>[object Object]\<close>, unless it has an own property
  \<^verbatim>\<open>toString\<close>: that property is not a function, and the conversion throws a
  \<^verbatim>\<open>TypeError\<close> (\<open>None\<close>).
\<close>

fun js_toString :: "('n \<Rightarrow> string) \<Rightarrow> 'n json \<Rightarrow> string option" where
  "js_toString ns JNull = Some ''null''"
| "js_toString ns (JBool b) = Some (if b then ''true'' else ''false'')"
| "js_toString ns (JNum n) = Some (ns n)"
| "js_toString ns (JStr s) = Some s"
| "js_toString ns (JArr xs) =
     map_option join_comma
       (those (map (\<lambda>x. if x = JNull then Some [] else js_toString ns x) xs))"
| "js_toString ns (JObj props) =
     (if ''toString'' \<in> fst ` set props then None else Some ''[object Object]'')"

section \<open>Keys, options and the algorithm registry\<close>

text \<open>
  A JSON Web Key: the members the code reads or writes, and the remaining ones (the key
  type and the key material) as a list of pairs.
\<close>

record json_web_key =
  jwk_alg :: "string option"
  jwk_crv :: "string option"
  jwk_ext :: "string option"
  jwk_key_ops :: "string list option"
  jwk_members :: "(string \<times> string) list"

record sign_options =
  detached :: bool
  payload :: "byte list"
  privateKeyJwk :: json_web_key
  kid :: string

record verify_options =
  detachedPayload :: "byte list option"
  signature :: string

datatype crypto_algorithm = EcdsaAlgorithm | EdDsaAlgorithm

datatype algorithm_options =
    EcdsaOptions string string
  | EdDsaOptions string

record signer_value =
  signer :: crypto_algorithm
  options :: algorithm_options
  alg :: string
  crv :: string

definition secp256k1Signer :: signer_value where
  "secp256k1Signer =
     \<lparr>signer = EcdsaAlgorithm, options = EcdsaOptions ''ECDSA'' ''SHA-256'',
      alg = ''ES256K'', crv = ''secp256k1''\<rparr>"

definition ed25519Signer :: signer_value where
  "ed25519Signer =
     \<lparr>signer = EdDsaAlgorithm, options = EdDsaOptions ''EdDSA'',
      alg = ''EdDSA'', crv = ''Ed25519''\<rparr>"

text \<open>
  \<^verbatim>\<open>Crypto.algorithms\<close>, read as \<^verbatim>\<open>Crypto.algorithms[id]\<close>. Every identifier the
  code builds contains a colon, so it never names a property of \<^verbatim>\<open>Object.prototype\<close>.
\<close>

definition algorithms :: "string \<Rightarrow> signer_value option" where
  "algorithms =
     map_of
       [(''ES256K:'', secp256k1Signer),
        (''ES256K:secp256k1'', secp256k1Signer),
        ('':secp256k1'', secp256k1Signer),
        (''EdDSA:Ed25519'', ed25519Signer)]"

section \<open>Libraries and collaborators\<close>

text \<open>
  Modelled from the spec: \<^verbatim>\<open>did-resolver.js\<close>, which declares what
  \<^verbatim>\<open>deferenceDidUrl\<close> resolves a DID URL to, is not among the sources. Section 6 of
  the specification gives the collaborator's interface: a verification-method record
  whose \<^verbatim>\<open>publicKeyJwk\<close> is optional, or something that is not a verification method.
\<close>

datatype did_resource =
    VerificationMethod (publicKeyJwk: "json_web_key option")
  | OtherResource

text \<open>
  Modelled from the spec: \<^verbatim>\<open>isVerificationMethod\<close> of \<^verbatim>\<open>did-resolver.js\<close> is not
  among the sources; it tells a verification-method record from any other result.
\<close>

definition isVerificationMethod :: "did_resource \<Rightarrow> bool" where
  "isVerificationMethod r = (case r of VerificationMethod k \<Rightarrow> True | OtherResource \<Rightarrow> False)"

text \<open>
  The functions the module imports are parameters of the model. A function that can throw
  returns the message on the left.
  \<^item> \<open>number_truthy\<close>, \<open>number_toString\<close>: the runtime's view of a JSON number;
  \<^item> \<open>object_toBase64Url\<close>: \<^verbatim>\<open>Convert.object(o).toBase64Url()\<close>;
  \<^item> \<open>uint8Array_toBase64Url\<close>: \<^verbatim>\<open>Convert.uint8Array(b).toBase64Url()\<close>;
  \<^item> \<open>string_toUint8Array\<close>: \<^verbatim>\<open>Convert.string(s).toUint8Array()\<close>;
  \<^item> \<open>base64Url_toObject\<close>: \<^verbatim>\<open>Convert.base64Url(s).toObject()\<close>;
  \<^item> \<open>base64Url_toUint8Array\<close>: \<^verbatim>\<open>Convert.base64Url(s).toUint8Array()\<close>;
  \<^item> \<open>jwkToCryptoKey\<close>: \<^verbatim>\<open>Jose.jwkToCryptoKey\<close>, giving a key handle of type \<open>'k\<close>;
  \<^item> \<open>signer_sign\<close>, \<open>signer_verify\<close>: the \<^verbatim>\<open>sign\<close> and \<^verbatim>\<open>verify\<close> methods
    of a \<^verbatim>\<open>CryptoAlgorithm\<close>;
  \<^item> \<open>deferenceDidUrl\<close>: DID resolution;
  \<^item> \<open>json_quote\<close>, \<open>sha256\<close>: the serialisation of a JSON string and the hash used
    by \<^verbatim>\<open>digest\<close>.
\<close>

record ('n, 'k) env =
  number_truthy :: "'n \<Rightarrow> bool"
  number_toString :: "'n \<Rightarrow> string"
  object_toBase64Url :: "'n json \<Rightarrow> string"
  uint8Array_toBase64Url :: "byte list \<Rightarrow> string"
  string_toUint8Array :: "string \<Rightarrow> byte list"
  base64Url_toObject :: "string \<Rightarrow> string + 'n json"
  base64Url_toUint8Array :: "string \<Rightarrow> string + byte list"
  jwkToCryptoKey :: "json_web_key \<Rightarrow> string + 'k"
  signer_sign ::
    "crypto_algorithm \<Rightarrow> algorithm_options \<Rightarrow> 'k \<Rightarrow> byte list \<Rightarrow> string + byte list"
  signer_verify ::
    "crypto_algorithm \<Rightarrow> algorithm_options \<Rightarrow> 'k \<Rightarrow> byte list \<Rightarrow> byte list \<Rightarrow> string + bool"
  deferenceDidUrl :: "'n json \<Rightarrow> string + did_resource"
  json_quote :: "string \<Rightarrow> string"
  sha256 :: "byte list \<Rightarrow> byte list"

text \<open>
  The calls to a collaborator that one run makes, in order and with their arguments:
  DID resolution, key conversion and the two cryptographic operations.
\<close>

datatype ('n, 'k) call =
    DereferenceDidUrl "'n json"
  | JwkToCryptoKey json_web_key
  | SignerSign crypto_algorithm algorithm_options 'k "byte list"
  | SignerVerify crypto_algorithm algorithm_options 'k "byte list" "byte list"

section \<open>Signing\<close>

text \<open>\<^verbatim>\<open>value || ''\<close> for an optional string member.\<close>

definition or_empty :: "string option \<Rightarrow> string" where
  "or_empty v = (case v of None \<Rightarrow> [] | Some s \<Rightarrow> s)"

text \<open>
  \<^verbatim>\<open>Crypto.sign\<close> (lines 146 to 176). The result is the list of collaborator calls made
  and either the error thrown or the compact JWS.
\<close>

definition sign :: "('n, 'k) env \<Rightarrow> sign_options \<Rightarrow> ('n, 'k) call list \<times> (error + string)" where
  "sign env opts =
     (let algorithmName = or_empty (jwk_alg (privateKeyJwk opts));
          namedCurve = or_empty (jwk_crv (privateKeyJwk opts));
          algorithmId = algorithmName @ '':'' @ namedCurve
      in case algorithms algorithmId of
        None \<Rightarrow> ([], Inl (UnsupportedAlgorithm algorithmId))
      | Some algorithm \<Rightarrow>
         (let jwsHeader = JObj [(''alg'', JStr (alg algorithm)), (''kid'', JStr (kid opts))];
              base64UrlEncodedJwsHeader = object_toBase64Url env jwsHeader;
              base64urlEncodedJwsPayload = uint8Array_toBase64Url env (payload opts)
          in case jwkToCryptoKey env (privateKeyJwk opts) of
            Inl m \<Rightarrow> ([JwkToCryptoKey (privateKeyJwk opts)], Inl (Thrown m))
          | Inr key \<Rightarrow>
             (let toSign = base64UrlEncodedJwsHeader @ ''.'' @ base64urlEncodedJwsPayload;
                  toSignBytes = string_toUint8Array env toSign;
                  calls = [JwkToCryptoKey (privateKeyJwk opts),
                           SignerSign (signer algorithm) (options algorithm) key toSignBytes]
              in case signer_sign env (signer algorithm) (options algorithm) key toSignBytes of
                Inl m \<Rightarrow> (calls, Inl (Thrown m))
              | Inr signatureBytes \<Rightarrow>
                 (let base64UrlEncodedSignature = uint8Array_toBase64Url env signatureBytes
                  in if detached opts
                     then (calls, Inr (base64UrlEncodedJwsHeader @ ''..'' @ base64UrlEncodedSignature))
                     else (calls, Inr (base64UrlEncodedJwsHeader @ ''.'' @ base64urlEncodedJwsPayload
                                        @ ''.'' @ base64UrlEncodedSignature))))))"

section \<open>Verification\<close>

text \<open>
  Lines 188 to 204 of \<^verbatim>\<open>Crypto.verify\<close>: the three segments of the compact JWS, the
  payload segment replaced by the encoding of the detached payload when one is given. A
  \<^verbatim>\<open>Uint8Array\<close> is an object, so a detached payload is truthy even when it is empty.
\<close>

definition jws_segments ::
  "('n, 'k) env \<Rightarrow> verify_options \<Rightarrow> error + (string \<times> string \<times> string)" where
  "jws_segments env opts =
     (if signature opts = [] then Inl MissingSignature
      else let splitJws = js_split (CHR ''.'') (signature opts)
      in if length splitJws \<noteq> 3 then Inl MalformedSignature
      else let base64UrlEncodedJwsHeader = splitJws ! 0;
               base64urlEncodedJwsPayload = splitJws ! 1;
               base64UrlEncodedSignature = splitJws ! 2
      in case detachedPayload opts of
        None \<Rightarrow>
          Inr (base64UrlEncodedJwsHeader, base64urlEncodedJwsPayload, base64UrlEncodedSignature)
      | Some detachedBytes \<Rightarrow>
          if length base64urlEncodedJwsPayload \<noteq> 0 then Inl MalformedSignature
          else Inr (base64UrlEncodedJwsHeader,
                    uint8Array_toBase64Url env detachedBytes,
                    base64UrlEncodedSignature))"

text \<open>
  Lines 206 to 209: the header is decoded and must have a truthy \<^verbatim>\<open>alg\<close> and a truthy
  \<^verbatim>\<open>kid\<close>. The result is the pair of the two values.
\<close>

definition jws_header :: "('n, 'k) env \<Rightarrow> string \<Rightarrow> error + ('n json \<times> 'n json)" where
  "jws_header env base64UrlEncodedJwsHeader =
     (case base64Url_toObject env base64UrlEncodedJwsHeader of
        Inl m \<Rightarrow> Inl (Thrown m)
      | Inr jwsHeader \<Rightarrow>
         (case js_get jwsHeader ''alg'' of
            Inl e \<Rightarrow> Inl e
          | Inr None \<Rightarrow> Inl MalformedHeader
          | Inr (Some a) \<Rightarrow>
             if \<not> js_truthy (number_truthy env) a then Inl MalformedHeader
             else (case js_get jwsHeader ''kid'' of
                Inl e \<Rightarrow> Inl e
              | Inr None \<Rightarrow> Inl MalformedHeader
              | Inr (Some k) \<Rightarrow>
                 if \<not> js_truthy (number_truthy env) k then Inl MalformedHeader
                 else Inr (a, k))))"

text \<open>
  A header lacks a member when it is not an object, when the object has no property of
  that name, or when the property is falsy (the empty string is).
\<close>

definition lacks_member :: "('n, 'k) env \<Rightarrow> 'n json \<Rightarrow> string \<Rightarrow> bool" where
  "lacks_member env v name =
     (case v of
        JObj props \<Rightarrow>
          (case map_of props name of
             None \<Rightarrow> True
           | Some x \<Rightarrow> \<not> js_truthy (number_truthy env) x)
      | _ \<Rightarrow> True)"

text \<open>
  Line 227: the registry identifier made of the header's \<^verbatim>\<open>alg\<close> and the public key's
  \<^verbatim>\<open>crv\<close>. A missing \<^verbatim>\<open>crv\<close> is \<^verbatim>\<open>undefined\<close>, which the template literal
  writes out.
\<close>

definition verify_algorithmId :: "('n, 'k) env \<Rightarrow> 'n json \<Rightarrow> json_web_key \<Rightarrow> string option" where
  "verify_algorithmId env a publicKey =
     map_option
       (\<lambda>s. s @ '':'' @ (case jwk_crv publicKey of None \<Rightarrow> ''undefined'' | Some c \<Rightarrow> c))
       (js_toString (number_toString env) a)"

text \<open>
  Lines 186 to 242 of \<^verbatim>\<open>Crypto.verify\<close>: every check of the pipeline. When all of
  them pass the result is the header's \<^verbatim>\<open>kid\<close>.
\<close>

definition verify_checks ::
  "('n, 'k) env \<Rightarrow> verify_options \<Rightarrow> ('n, 'k) call list \<times> (error + 'n json)" where
  "verify_checks env opts =
     (case jws_segments env opts of
        Inl e \<Rightarrow> ([], Inl e)
      | Inr (base64UrlEncodedJwsHeader, base64urlEncodedJwsPayload, base64UrlEncodedSignature) \<Rightarrow>
     (case jws_header env base64UrlEncodedJwsHeader of
        Inl e \<Rightarrow> ([], Inl e)
      | Inr (header_alg, header_kid) \<Rightarrow>
     (case deferenceDidUrl env header_kid of
        Inl m \<Rightarrow> ([DereferenceDidUrl header_kid], Inl (Thrown m))
      | Inr verificationMethod \<Rightarrow>
     if \<not> isVerificationMethod verificationMethod
     then ([DereferenceDidUrl header_kid], Inl NotVerificationMethod)
     else (case publicKeyJwk verificationMethod of
        None \<Rightarrow> ([DereferenceDidUrl header_kid], Inl UnresolvableKey)
      | Some publicKey \<Rightarrow>
     (let signedData = base64UrlEncodedJwsHeader @ ''.'' @ base64urlEncodedJwsPayload;
          signedDataBytes = string_toUint8Array env signedData
      in case base64Url_toUint8Array env base64UrlEncodedSignature of
        Inl m \<Rightarrow> ([DereferenceDidUrl header_kid], Inl (Thrown m))
      | Inr signatureBytes \<Rightarrow>
     (case verify_algorithmId env header_alg publicKey of
        None \<Rightarrow> ([DereferenceDidUrl header_kid], Inl TypeError)
      | Some algorithmId \<Rightarrow>
     (case algorithms algorithmId of
        None \<Rightarrow> ([DereferenceDidUrl header_kid], Inl TypeError)
      | Some algorithm \<Rightarrow>
     (let monkeyPatchPublicKeyJwk =
            publicKey\<lparr>jwk_ext := Some ''true'', jwk_key_ops := Some [''verify'']\<rparr>
      in case jwkToCryptoKey env monkeyPatchPublicKeyJwk of
        Inl m \<Rightarrow>
          ([DereferenceDidUrl header_kid, JwkToCryptoKey monkeyPatchPublicKeyJwk],
           Inl (Thrown m))
      | Inr key \<Rightarrow>
     (let calls =
            [DereferenceDidUrl header_kid, JwkToCryptoKey monkeyPatchPublicKeyJwk,
             SignerVerify (signer algorithm) (options algorithm) key
               signedDataBytes signatureBytes]
      in case signer_verify env (signer algorithm) (options algorithm) key
                signedDataBytes signatureBytes of
        Inl m \<Rightarrow> (calls, Inl (Thrown m))
      | Inr isLegit \<Rightarrow>
          if \<not> isLegit then (calls, Inl IntegrityMismatch)
          else (calls, Inr header_kid))))))))))"

text \<open>
  Lines 244 and 245: the part of \<^verbatim>\<open>kid\<close> before the first \<^verbatim>\<open>#\<close>. A \<^verbatim>\<open>kid\<close>
  that is not a string has no \<^verbatim>\<open>split\<close> method, and calling it throws.
  \<open>js_split\<close> never returns the empty list (lemma \<open>js_split_not_Nil\<close>), so the first
  element exists.
\<close>

definition did_of_kid :: "'n json \<Rightarrow> error + string" where
  "did_of_kid k =
     (case k of
        JStr s \<Rightarrow> Inr (hd (js_split (CHR ''#'') s))
      | _ \<Rightarrow> Inl TypeError)"

text \<open>\<^verbatim>\<open>Crypto.verify\<close> (lines 185 to 246).\<close>

definition verify ::
  "('n, 'k) env \<Rightarrow> verify_options \<Rightarrow> ('n, 'k) call list \<times> (error + string)" where
  "verify env opts =
     (case verify_checks env opts of
        (calls, Inl e) \<Rightarrow> (calls, Inl e)
      | (calls, Inr header_kid) \<Rightarrow> (calls, did_of_kid header_kid))"

section \<open>The canonical digest\<close>

text \<open>
  Modelled from the spec: \<^verbatim>\<open>canonicalize\<close> is the package of that name and is not
  among the sources. Section 4.2 of the specification describes it: object keys in a fixed
  lexicographic order, no insignificant whitespace, a stable formatting of numbers. The
  formatting of numbers \<open>ns\<close> and of strings \<open>q\<close> are parameters.
\<close>

fun canonicalize :: "(string \<Rightarrow> string) \<Rightarrow> ('n \<Rightarrow> string) \<Rightarrow> 'n json \<Rightarrow> string" where
  "canonicalize q ns JNull = ''null''"
| "canonicalize q ns (JBool b) = (if b then ''true'' else ''false'')"
| "canonicalize q ns (JNum n) = ns n"
| "canonicalize q ns (JStr s) = q s"
| "canonicalize q ns (JArr xs) = ''['' @ join_comma (map (canonicalize q ns) xs) @ '']''"
| "canonicalize q ns (JObj props) =
     ''{'' @
     join_comma
       (map (\<lambda>p. q (fst p) @ '':'' @ snd p)
         (sort_key fst (map (\<lambda>p. (fst p, canonicalize q ns (snd p))) props))) @
     ''}''"

text \<open>\<^verbatim>\<open>Crypto.digest\<close> (lines 131 to 137).\<close>

definition digest :: "('n, 'k) env \<Rightarrow> 'n json \<Rightarrow> byte list" where
  "digest env value =
     (let canonicalized = canonicalize (json_quote env) (number_toString env) value;
          canonicalizedBytes = string_toUint8Array env canonicalized
      in sha256 env canonicalizedBytes)"

text \<open>
  Two values are the same up to the order of fields when they are equal, or arrays of
  the same length whose elements are the same up to the order of fields, or objects that
  have the same property names and, under each name, values that are the same up to the
  order of fields.
\<close>

inductive same_fields :: "'n json \<Rightarrow> 'n json \<Rightarrow> bool" where
  same_refl: "same_fields v v"
| same_array: "list_all2 same_fields xs ys \<Longrightarrow> same_fields (JArr xs) (JArr ys)"
| same_object:
    "distinct (map fst ps) \<Longrightarrow> distinct (map fst qs) \<Longrightarrow>
     fst ` set ps = fst ` set qs \<Longrightarrow>
     (\<And>k v w. (k, v) \<in> set ps \<Longrightarrow> (k, w) \<in> set qs \<Longrightarrow> same_fields v w) \<Longrightarrow>
     same_fields (JObj ps) (JObj qs)"

section \<open>Mutating one bit of a string\<close>


section \<open>An example environment\<close>

text \<open>
  The theorems below hold for every environment. To show that their hypotheses can be
  met, this section builds one: the base64url encoding without padding and its strict
  decoder, a serialiser of JSON, a parser that knows a fixed list of documents, a
  resolver that knows a fixed list of DID URLs, and a stand-in for the signature
  primitive.
\<close>

definition base64url_alphabet :: string where
  "base64url_alphabet = ''ABCDEFGHIJKLMNOPQRSTUVWXYZabcdefghijklmnopqrstuvwxyz0123456789-_''"

definition b64_char :: "nat \<Rightarrow> char" where
  "b64_char n = base64url_alphabet ! n"

definition b64_value :: "char \<Rightarrow> nat option" where
  "b64_value c = map_of (zip base64url_alphabet [0..<64]) c"

fun b64_encode :: "byte list \<Rightarrow> string" where
  "b64_encode [] = []"
| "b64_encode [a] =
     [b64_char (unat a div 4), b64_char (unat a mod 4 * 16)]"
| "b64_encode [a, b] =
     [b64_char (unat a div 4), b64_char (unat a mod 4 * 16 + unat b div 16),
      b64_char (unat b mod 16 * 4)]"
| "b64_encode (a # b # c # rest) =
     [b64_char (unat a div 4), b64_char (unat a mod 4 * 16 + unat b div 16),
      b64_char (unat b mod 16 * 4 + unat c div 64), b64_char (unat c mod 64)]
     @ b64_encode rest"

text \<open>
  The decoder is strict: a character outside the alphabet, a single trailing character
  and non-zero unused bits in the last character are rejected.
\<close>

fun b64_decode :: "string \<Rightarrow> byte list option" where
  "b64_decode [] = Some []"
| "b64_decode [c1] = None"
| "b64_decode [c1, c2] =
     (case (b64_value c1, b64_value c2) of
        (Some v1, Some v2) \<Rightarrow>
          if v2 mod 16 \<noteq> 0 then None else Some [of_nat (v1 * 4 + v2 div 16)]
      | _ \<Rightarrow> None)"
| "b64_decode [c1, c2, c3] =
     (case (b64_value c1, b64_value c2, b64_value c3) of
        (Some v1, Some v2, Some v3) \<Rightarrow>
          if v3 mod 4 \<noteq> 0 then None
          else Some [of_nat (v1 * 4 + v2 div 16), of_nat (v2 mod 16 * 16 + v3 div 4)]
      | _ \<Rightarrow> None)"
| "b64_decode (c1 # c2 # c3 # c4 # rest) =
     (case (b64_value c1, b64_value c2, b64_value c3, b64_value c4) of
        (Some v1, Some v2, Some v3, Some v4) \<Rightarrow>
          map_option
            (\<lambda>bs. of_nat (v1 * 4 + v2 div 16) # of_nat (v2 mod 16 * 16 + v3 div 4)
                   # of_nat (v3 mod 4 * 64 + v4) # bs)
            (b64_decode rest)
      | _ \<Rightarrow> None)"

text \<open>The bytes of a string whose characters are ASCII.\<close>

definition ex_bytes :: "string \<Rightarrow> byte list" where
  "ex_bytes s = map (\<lambda>c. of_nat (of_char c)) s"

definition ex_quote :: "string \<Rightarrow> string" where
  "ex_quote s =
     CHR 0x22 #
     concat (map (\<lambda>c. if c = CHR 0x22 \<or> c = CHR 0x5C then [CHR 0x5C, c] else [c]) s)
     @ [CHR 0x22]"

function nat_decimal :: "nat \<Rightarrow> string" where
  "nat_decimal n =
     (if n < 10 then [char_of (48 + n)]
      else nat_decimal (n div 10) @ [char_of (48 + n mod 10)])"
  by pat_completeness auto
termination
  by (relation "measure id") auto

definition int_decimal :: "int \<Rightarrow> string" where
  "int_decimal i = (if i < 0 then CHR ''-'' # nat_decimal (nat (- i)) else nat_decimal (nat i))"

fun ex_stringify :: "int json \<Rightarrow> string" where
  "ex_stringify JNull = ''null''"
| "ex_stringify (JBool b) = (if b then ''true'' else ''false'')"
| "ex_stringify (JNum n) = int_decimal n"
| "ex_stringify (JStr s) = ex_quote s"
| "ex_stringify (JArr xs) = ''['' @ join_comma (map ex_stringify xs) @ '']''"
| "ex_stringify (JObj props) =
     ''{'' @
     join_comma (map (\<lambda>p. ex_quote (fst p) @ '':'' @ ex_stringify (snd p)) props) @
     ''}''"

definition ex_header :: "string \<Rightarrow> string \<Rightarrow> int json" where
  "ex_header a k = JObj [(''alg'', JStr a), (''kid'', JStr k)]"

text \<open>The documents that the example's parser knows.\<close>

definition ex_documents :: "int json list" where
  "ex_documents =
     [JNull,
      JObj [],
      ex_header ''EdDSA'' ''did:example:abc#key-1'',
      ex_header ''ES256K'' ''did:example:bob#key-1'',
      ex_header ''ES256K'' ''did:example:carol'',
      ex_header ''ES256'' ''did:example:bob#key-1'']"

definition ex_toObject :: "string \<Rightarrow> string + int json" where
  "ex_toObject s =
     (case b64_decode s of
        None \<Rightarrow> Inl ''SyntaxError''
      | Some bytes \<Rightarrow>
         (case find (\<lambda>j. ex_bytes (ex_stringify j) = bytes) ex_documents of
            None \<Rightarrow> Inl ''SyntaxError''
          | Some j \<Rightarrow> Inr j))"

definition ex_toUint8Array :: "string \<Rightarrow> string + byte list" where
  "ex_toUint8Array s =
     (case b64_decode s of None \<Rightarrow> Inl ''SyntaxError'' | Some bytes \<Rightarrow> Inr bytes)"

text \<open>
  Three key pairs. The key handle of the example is the member \<^verbatim>\<open>x\<close> of the key, which
  a private key and its public key share.
\<close>

definition ex_key :: "string option \<Rightarrow> string option \<Rightarrow> string \<Rightarrow> json_web_key" where
  "ex_key a c x =
     \<lparr>jwk_alg = a, jwk_crv = c, jwk_ext = None, jwk_key_ops = None,
      jwk_members = [(''x'', x)]\<rparr>"

definition ex_private :: "string option \<Rightarrow> string option \<Rightarrow> string \<Rightarrow> json_web_key" where
  "ex_private a c x = (ex_key a c x)\<lparr>jwk_members := [(''x'', x), (''d'', ''secret'')]\<rparr>"

definition ex_jwkToCryptoKey :: "json_web_key \<Rightarrow> string + string" where
  "ex_jwkToCryptoKey k =
     (case map_of (jwk_members k) ''x'' of
        None \<Rightarrow> Inl ''unknown key format''
      | Some x \<Rightarrow> Inr x)"

definition ex_resolve :: "int json \<Rightarrow> string + did_resource" where
  "ex_resolve url =
     (if url = JStr ''did:example:abc#key-1''
        then Inr (VerificationMethod (Some (ex_key (Some ''EdDSA'') (Some ''Ed25519'') ''abc'')))
      else if url = JStr ''did:example:bob#key-1''
        then Inr (VerificationMethod (Some (ex_key None (Some ''secp256k1'') ''bob'')))
      else if url = JStr ''did:example:carol''
        then Inr (VerificationMethod (Some (ex_key None (Some ''secp256k1'') ''carol'')))
      else Inl ''notFound'')"

text \<open>
  The stand-in for the signature primitive: the signature of a message under a key is the
  key handle followed by the message, and a signature verifies when it is that list.
\<close>

definition ex_signature :: "string \<Rightarrow> byte list \<Rightarrow> byte list" where
  "ex_signature key data = ex_bytes key @ data"

text \<open>
  The hash of the example cuts or pads its input to 32 bytes: only the length of its
  output matters below.
\<close>

definition ex_env :: "(int, string) env" where
  "ex_env =
     \<lparr>number_truthy = (\<lambda>n. n \<noteq> 0),
      number_toString = int_decimal,
      object_toBase64Url = (\<lambda>j. b64_encode (ex_bytes (ex_stringify j))),
      uint8Array_toBase64Url = b64_encode,
      string_toUint8Array = ex_bytes,
      base64Url_toObject = ex_toObject,
      base64Url_toUint8Array = ex_toUint8Array,
      jwkToCryptoKey = ex_jwkToCryptoKey,
      signer_sign = (\<lambda>a opts key data. Inr (ex_signature key data)),
      signer_verify = (\<lambda>a opts key data sig. Inr (sig = ex_signature key data)),
      deferenceDidUrl = ex_resolve,
      json_quote = ex_quote,
      sha256 = (\<lambda>bytes. take 32 (bytes @ replicate 32 0))\<rparr>"

text \<open>
  The example environment in a world where exactly one signature has ever been issued:
  the signature primitive accepts that message with that signature and nothing else.
\<close>

definition ex_issued_env :: "byte list \<Rightarrow> byte list \<Rightarrow> (int, string) env" where
  "ex_issued_env data sb =
     ex_env\<lparr>signer_verify := (\<lambda>a opts key data' sb'. Inr (data' = data \<and> sb' = sb))\<rparr>"

section \<open>Splitting strings\<close>

lemma js_split_not_Nil: "js_split sep s \<noteq> []"
  by (induction s) (auto split: list.splits)

lemma hd_js_split: "hd (js_split sep s) = takeWhile (\<lambda>c. c \<noteq> sep) s"
  by (induction s) (auto simp: js_split_not_Nil split: list.splits)

lemma js_split_no_sep: "sep \<notin> set a \<Longrightarrow> js_split sep a = [a]"
  by (induction a) auto

lemma js_split_append: "sep \<notin> set a \<Longrightarrow> js_split sep (a @ sep # b) = a # js_split sep b"
  by (induction a) auto





lemma colon_split_unique:
  "a @ CHR '':'' # c = x @ CHR '':'' # y \<Longrightarrow> CHR '':'' \<notin> set x \<Longrightarrow> CHR '':'' \<notin> set y
   \<Longrightarrow> a = x \<and> c = y"
proof (induction a arbitrary: x)
  case Nil
  then show ?case by (cases x) auto
next
  case (Cons z zs)
  then show ?case by (cases x) auto
qed

section \<open>The pipeline of verification\<close>

lemma signature_not_Nil: "js_split sep sg = [h, p, s] \<Longrightarrow> sg \<noteq> []"
  by auto

lemma jws_segments_three:
  assumes "js_split (CHR ''.'') (signature opts) = [h, p, s]"
  shows "jws_segments env opts =
           (case detachedPayload opts of
              None \<Rightarrow> Inr (h, p, s)
            | Some d \<Rightarrow> if p \<noteq> [] then Inl MalformedSignature
                        else Inr (h, uint8Array_toBase64Url env d, s))"
  using assms signature_not_Nil [OF assms]
  by (simp add: jws_segments_def split: option.splits)


text \<open>When every step passes, the three collaborators are called once each, in order.\<close>

lemma verify_checks_pass:
  assumes "jws_segments env opts = Inr (h, p, s)"
    and "jws_header env h = Inr (a, k)"
    and "deferenceDidUrl env k = Inr (VerificationMethod (Some pk))"
    and "base64Url_toUint8Array env s = Inr sb"
    and "verify_algorithmId env a pk = Some aid"
    and "algorithms aid = Some d"
    and "jwkToCryptoKey env (pk\<lparr>jwk_ext := Some ''true'', jwk_key_ops := Some [''verify'']\<rparr>)
           = Inr key"
    and "signer_verify env (signer d) (options d) key
           (string_toUint8Array env (h @ ''.'' @ p)) sb = Inr ok"
  shows "verify_checks env opts =
           ([DereferenceDidUrl k,
             JwkToCryptoKey (pk\<lparr>jwk_ext := Some ''true'', jwk_key_ops := Some [''verify'']\<rparr>),
             SignerVerify (signer d) (options d) key
               (string_toUint8Array env (h @ ''.'' @ p)) sb],
            if ok then Inr k else Inl IntegrityMismatch)"
  using assms by (simp add: verify_checks_def isVerificationMethod_def)




lemma jws_header_lacks:
  assumes "base64Url_toObject env h = Inr hdr" and "hdr \<noteq> JNull"
    and "lacks_member env hdr ''alg'' \<or> lacks_member env hdr ''kid''"
  shows "jws_header env h = Inl MalformedHeader"
  using assms
  by (cases hdr) (auto simp: jws_header_def lacks_member_def split: option.splits)

lemma jws_header_strings:
  assumes "base64Url_toObject env h = Inr (JObj [(''alg'', JStr a), (''kid'', JStr k)])"
    and "a \<noteq> []" and "k \<noteq> []"
  shows "jws_header env h = Inr (JStr a, JStr k)"
  using assms by (simp add: jws_header_def)

section \<open>The registry\<close>

lemma alg_signers [simp]:
  "alg secp256k1Signer = ''ES256K''" "alg ed25519Signer = ''EdDSA''"
  by (simp_all add: secp256k1Signer_def ed25519Signer_def)

lemma algorithms_entries:
  "algorithms ''ES256K:'' = Some secp256k1Signer"
  "algorithms ''ES256K:secp256k1'' = Some secp256k1Signer"
  "algorithms '':secp256k1'' = Some secp256k1Signer"
  "algorithms ''EdDSA:Ed25519'' = Some ed25519Signer"
  by (simp_all add: algorithms_def)

lemma algorithms_cases:
  assumes "algorithms (a @ '':'' @ c) = Some d"
  shows "(a = ''ES256K'' \<and> c = [] \<and> d = secp256k1Signer) \<or>
         (a = ''ES256K'' \<and> c = ''secp256k1'' \<and> d = secp256k1Signer) \<or>
         (a = [] \<and> c = ''secp256k1'' \<and> d = secp256k1Signer) \<or>
         (a = ''EdDSA'' \<and> c = ''Ed25519'' \<and> d = ed25519Signer)"
proof -
  have "(a @ '':'' @ c, d) \<in> set [(''ES256K:'', secp256k1Signer),
        (''ES256K:secp256k1'', secp256k1Signer),
        ('':secp256k1'', secp256k1Signer),
        (''EdDSA:Ed25519'', ed25519Signer)]"
    using assms unfolding algorithms_def by (rule map_of_SomeD)
  then have k: "(a @ '':'' @ c = ''ES256K:'' \<and> d = secp256k1Signer) \<or>
        (a @ '':'' @ c = ''ES256K:secp256k1'' \<and> d = secp256k1Signer) \<or>
        (a @ '':'' @ c = '':secp256k1'' \<and> d = secp256k1Signer) \<or>
        (a @ '':'' @ c = ''EdDSA:Ed25519'' \<and> d = ed25519Signer)"
    by (simp only: set_simps insert_iff empty_iff prod.inject simp_thms)
  then show ?thesis
  proof (elim disjE conjE)
    assume "a @ '':'' @ c = ''ES256K:''" and "d = secp256k1Signer"
    then show ?thesis
      using colon_split_unique [of a c "''ES256K''" "[]"] by simp
  next
    assume "a @ '':'' @ c = ''ES256K:secp256k1''" and "d = secp256k1Signer"
    then show ?thesis
      using colon_split_unique [of a c "''ES256K''" "''secp256k1''"] by simp
  next
    assume "a @ '':'' @ c = '':secp256k1''" and "d = secp256k1Signer"
    then show ?thesis
      using colon_split_unique [of a c "[]" "''secp256k1''"] by simp
  next
    assume "a @ '':'' @ c = ''EdDSA:Ed25519''" and "d = ed25519Signer"
    then show ?thesis
      using colon_split_unique [of a c "''EdDSA''" "''Ed25519''"] by simp
  qed
qed

lemma registry_pair:
  assumes "algorithms (a @ '':'' @ c) = Some d"
  shows "algorithms (alg d @ '':'' @ c) = Some d \<and> alg d \<noteq> []"
  using algorithms_cases [OF assms]
  by (elim disjE conjE) (simp_all add: algorithms_entries)

text \<open>
  An entry found under the \<^verbatim>\<open>alg\<close> label of a registered descriptor is that
  descriptor: the label determines the signer.
\<close>

lemma registry_same_signer:
  assumes "algorithms (a @ '':'' @ c) = Some d" and "algorithms (alg d @ '':'' @ pc) = Some d'"
  shows "d' = d"
  using algorithms_cases [OF assms(1)] algorithms_cases [OF assms(2)]
  by (elim disjE conjE) simp_all

section \<open>Signing, then verifying\<close>


lemma segments_attached:
  assumes "CHR ''.'' \<notin> set h" and "CHR ''.'' \<notin> set p" and "CHR ''.'' \<notin> set s"
  shows "jws_segments env \<lparr>detachedPayload = None, signature = h @ ''.'' @ p @ ''.'' @ s\<rparr>
           = Inr (h, p, s)"
proof -
  have "js_split (CHR ''.'') (h @ ''.'' @ p @ ''.'' @ s) = [h, p, s]"
    using assms by (simp add: js_split_append js_split_no_sep)
  then show ?thesis
    using jws_segments_three
      [of "\<lparr>detachedPayload = None, signature = h @ ''.'' @ p @ ''.'' @ s\<rparr>" h p s env]
    by simp
qed


text \<open>
  Verification of a string whose header is the one that signing writes: the result is
  decided by the signature primitive alone.
\<close>

lemma verify_checks_signed:
  assumes seg: "jws_segments env opts = Inr (h, p, s)"
    and hdr: "base64Url_toObject env h
                = Inr (JObj [(''alg'', JStr (alg d)), (''kid'', JStr kd)])"
    and reg: "algorithms (a @ '':'' @ c) = Some d"
    and kd: "kd \<noteq> []"
    and res: "deferenceDidUrl env (JStr kd) = Inr (VerificationMethod (Some pub))"
    and crv: "jwk_crv pub = Some pc"
    and vreg: "algorithms (alg d @ '':'' @ pc) \<noteq> None"
    and sg: "base64Url_toUint8Array env s = Inr sb"
    and vk: "jwkToCryptoKey env
               (pub\<lparr>jwk_ext := Some ''true'', jwk_key_ops := Some [''verify'']\<rparr>) = Inr vk"
    and ok: "signer_verify env (signer d) (options d) vk
               (string_toUint8Array env (h @ ''.'' @ p)) sb = Inr ok"
  shows "verify_checks env opts =
           ([DereferenceDidUrl (JStr kd),
             JwkToCryptoKey (pub\<lparr>jwk_ext := Some ''true'', jwk_key_ops := Some [''verify'']\<rparr>),
             SignerVerify (signer d) (options d) vk
               (string_toUint8Array env (h @ ''.'' @ p)) sb],
            if ok then Inr (JStr kd) else Inl IntegrityMismatch)"
proof -
  obtain d' where d': "algorithms (alg d @ '':'' @ pc) = Some d'"
    using vreg by auto
  have same: "d' = d" by (rule registry_same_signer [OF reg d'])
  have "alg d \<noteq> []" using registry_pair [OF reg] by simp
  then have hd: "jws_header env h = Inr (JStr (alg d), JStr kd)"
    using jws_header_strings [OF hdr] kd by simp
  have aid: "verify_algorithmId env (JStr (alg d)) pub = Some (alg d @ '':'' @ pc)"
    using crv by (simp add: verify_algorithmId_def)
  show ?thesis
    by (rule verify_checks_pass [OF seg hd res sg aid d' [unfolded same] vk ok])
qed


section \<open>Strings that differ from a verified signature\<close>




section \<open>The canonical form and the order of fields\<close>

lemma filter_distinct_key:
  assumes "distinct (map fst xs)" and "k \<in> set xs"
  shows "filter (\<lambda>x. fst k = fst x) xs = [k]"
  using assms
proof (induction xs)
  case Nil
  then show ?case by simp
next
  case (Cons x xs)
  show ?case
  proof (cases "k = x")
    case True
    have "filter (\<lambda>y. fst x = fst y) xs = []"
      using Cons.prems(1) by (auto simp: filter_empty_conv image_iff)
    then show ?thesis using True by simp
  next
    case False
    then have k: "k \<in> set xs" using Cons.prems(2) by simp
    then have "fst k \<noteq> fst x" using Cons.prems(1) by (auto simp: image_iff)
    then show ?thesis using Cons.IH k Cons.prems(1) by simp
  qed
qed

lemma sort_key_same_entries:
  fixes xs ys :: "(string \<times> 'a) list"
  assumes "distinct (map fst xs)" and "distinct (map fst ys)" and "set xs = set ys"
  shows "sort_key fst xs = sort_key fst ys"
proof (rule properties_for_sort_key)
  have dx: "distinct xs" and dy: "distinct ys"
    using assms(1,2) by (simp_all add: distinct_map)
  show m: "mset (sort_key fst ys) = mset xs"
    using assms(3) dx dy by (simp add: set_eq_iff_mset_eq_distinct)
  show "sorted (map fst (sort_key fst ys))" by simp
  show "filter (\<lambda>x. fst k = fst x) (sort_key fst ys) = filter (\<lambda>x. fst k = fst x) xs"
    if "k \<in> set (sort_key fst ys)" for k
  proof -
    have "mset (map fst (sort_key fst ys)) = mset (map fst ys)" by simp
    then have "distinct (map fst (sort_key fst ys))"
      using assms(2) by (metis mset_eq_imp_distinct_iff)
    moreover have "k \<in> set xs" using that assms(3) by simp
    ultimately show ?thesis
      using filter_distinct_key [of "sort_key fst ys" k] filter_distinct_key [OF assms(1), of k] that
      by simp
  qed
qed

lemma canonicalize_same_fields:
  assumes "same_fields v w"
  shows "canonicalize q ns v = canonicalize q ns w"
  using assms
proof (induction rule: same_fields.induct)
  case (same_refl v)
  show ?case by simp
next
  case (same_array xs ys)
  then have "map (canonicalize q ns) xs = map (canonicalize q ns) ys"
    by (induction xs ys rule: list_all2_induct) simp_all
  then show ?case by simp
next
  case (same_object ps qs)
  let ?f = "\<lambda>p. (fst p, canonicalize q ns (snd p))"
  have keys: "map fst (map ?f ps) = map fst ps" "map fst (map ?f qs) = map fst qs"
    by (simp_all add: comp_def)
  have sub: "set (map ?f ps) \<subseteq> set (map ?f qs)"
  proof
    fix e assume "e \<in> set (map ?f ps)"
    then obtain k v where kv: "(k, v) \<in> set ps" and e: "e = (k, canonicalize q ns v)"
      by auto
    then have "k \<in> fst ` set qs" using same_object.hyps(3) by force
    then obtain w where kw: "(k, w) \<in> set qs" by auto
    have "canonicalize q ns v = canonicalize q ns w"
      using same_object.IH [OF kv kw] by simp
    then show "e \<in> set (map ?f qs)" using kw e by force
  qed
  have sup: "set (map ?f qs) \<subseteq> set (map ?f ps)"
  proof
    fix e assume "e \<in> set (map ?f qs)"
    then obtain k w where kw: "(k, w) \<in> set qs" and e: "e = (k, canonicalize q ns w)"
      by auto
    then have "k \<in> fst ` set ps" using same_object.hyps(3) by force
    then obtain v where kv: "(k, v) \<in> set ps" by auto
    have "canonicalize q ns v = canonicalize q ns w"
      using same_object.IH [OF kv kw] by simp
    then show "e \<in> set (map ?f ps)" using kv e by force
  qed
  have "sort_key fst (map ?f ps) = sort_key fst (map ?f qs)"
  proof (rule sort_key_same_entries)
    show "distinct (map fst (map ?f ps))" using same_object.hyps(1) by (simp only: keys)
    show "distinct (map fst (map ?f qs))" using same_object.hyps(2) by (simp only: keys)
    show "set (map ?f ps) = set (map ?f qs)" using sub sup by (rule equalityI)
  qed
  then show ?case by simp
qed

section \<open>The example environment: base64url\<close>

lemma alphabet_length: "length base64url_alphabet = 64"
  by (simp add: base64url_alphabet_def)

lemma alphabet_distinct: "distinct base64url_alphabet"
  by (simp add: base64url_alphabet_def)

lemma alphabet_no_dot: "CHR ''.'' \<notin> set base64url_alphabet"
  by (simp add: base64url_alphabet_def)

lemma b64_char_value: "n < 64 \<Longrightarrow> b64_value (b64_char n) = Some n"
  using map_of_zip_nth [of base64url_alphabet "[0..<64]" n]
  by (simp add: b64_value_def b64_char_def alphabet_length alphabet_distinct)


lemma b64_char_no_dot:
  assumes "n < 64"
  shows "b64_char n \<noteq> CHR ''.''" and "CHR ''.'' \<noteq> b64_char n"
proof -
  have "base64url_alphabet ! n \<in> set base64url_alphabet"
    using assms by (intro nth_mem) (simp add: alphabet_length)
  then show "b64_char n \<noteq> CHR ''.''" and "CHR ''.'' \<noteq> b64_char n"
    using alphabet_no_dot by (auto simp: b64_char_def)
qed

lemma byte_bound: "unat (a :: byte) < 256"
  using unsigned_less [of a] by simp

lemma b64_encode_no_dot: "CHR ''.'' \<notin> set (b64_encode bs)"
proof (induction bs rule: b64_encode.induct)
  case 1
  then show ?case by simp
next
  case (2 a)
  have "unat a div 4 < 64" "unat a mod 4 * 16 < 64"
    using byte_bound [of a] by simp_all
  then show ?case by (simp add: b64_char_no_dot)
next
  case (3 a b)
  have "unat a div 4 < 64" "unat a mod 4 * 16 + unat b div 16 < 64" "unat b mod 16 * 4 < 64"
    using byte_bound [of a] byte_bound [of b] by simp_all
  then show ?case by (simp add: b64_char_no_dot)
next
  case (4 a b c rest)
  have "unat a div 4 < 64" "unat a mod 4 * 16 + unat b div 16 < 64"
    "unat b mod 16 * 4 + unat c div 64 < 64" "unat c mod 64 < 64"
    using byte_bound [of a] byte_bound [of b] byte_bound [of c] by simp_all
  then show ?case using 4 by (simp add: b64_char_no_dot)
qed

lemma sextet_arith:
  fixes x y z :: nat
  assumes "y < 256" and "z < 256"
  shows "x div 4 * 4 + (x mod 4 * 16 + y div 16) div 16 = x"
    and "(x mod 4 * 16 + y div 16) mod 16 * 16 + (y mod 16 * 4 + z div 64) div 4 = y"
    and "(y mod 16 * 4 + z div 64) mod 4 * 64 + z mod 64 = z"
proof -
  have y: "y div 16 < 16" and z: "z div 64 < 4"
    using assms by simp_all
  show "x div 4 * 4 + (x mod 4 * 16 + y div 16) div 16 = x"
    using y by simp
  show "(x mod 4 * 16 + y div 16) mod 16 * 16 + (y mod 16 * 4 + z div 64) div 4 = y"
    using y z by simp
  show "(y mod 16 * 4 + z div 64) mod 4 * 64 + z mod 64 = z"
    using z by simp
qed

text \<open>Decoding undoes encoding, so the encoding is injective.\<close>

lemma b64_decode_encode: "b64_decode (b64_encode bs) = Some bs"
proof (induction bs rule: b64_encode.induct)
  case 1
  then show ?case by simp
next
  case (2 a)
  have "unat a div 4 < 64" "unat a mod 4 * 16 < 64"
    using byte_bound [of a] by simp_all
  moreover have "unat a div 4 * 4 + unat a mod 4 * 16 div 16 = unat a" by simp
  ultimately show ?case by (simp add: b64_char_value)
next
  case (3 a b)
  have "unat a div 4 < 64" "unat a mod 4 * 16 + unat b div 16 < 64" "unat b mod 16 * 4 < 64"
    using byte_bound [of a] byte_bound [of b] by simp_all
  moreover have "unat a div 4 * 4 + (unat a mod 4 * 16 + unat b div 16) div 16 = unat a"
    using sextet_arith(1) [where x = "unat a" and y = "unat b" and z = 0] byte_bound [of b]
    by simp
  moreover have "(unat a mod 4 * 16 + unat b div 16) mod 16 * 16 + unat b mod 16 * 4 div 4
      = unat b"
    using sextet_arith(2) [where x = "unat a" and y = "unat b" and z = 0] byte_bound [of b]
    by simp
  ultimately show ?case by (simp add: b64_char_value)
next
  case (4 a b c rest)
  have "unat a div 4 < 64" "unat a mod 4 * 16 + unat b div 16 < 64"
    "unat b mod 16 * 4 + unat c div 64 < 64" "unat c mod 64 < 64"
    using byte_bound [of a] byte_bound [of b] byte_bound [of c] by simp_all
  moreover note
    sextet_arith(1) [where x = "unat a" and y = "unat b" and z = "unat c",
      OF byte_bound byte_bound]
    sextet_arith(2) [where x = "unat a" and y = "unat b" and z = "unat c",
      OF byte_bound byte_bound]
    sextet_arith(3) [where y = "unat b" and z = "unat c", OF byte_bound byte_bound]
  ultimately show ?case using 4 by (simp add: b64_char_value)
qed



lemma unat_byte: "n < 256 \<Longrightarrow> unat (of_nat n :: byte) = n"
  by (simp add: unsigned_of_nat take_bit_nat_eq_self)





lemma ex_bytes_inj: "ex_bytes s = ex_bytes t \<Longrightarrow> s = t"
proof (induction s arbitrary: t)
  case Nil
  then show ?case by (simp add: ex_bytes_def)
next
  case (Cons c cs)
  then obtain d ds where t: "t = d # ds" by (cases t) (auto simp: ex_bytes_def)
  have e: "(of_nat (of_char c) :: byte) = of_nat (of_char d)" and "ex_bytes cs = ex_bytes ds"
    using Cons.prems unfolding t by (simp_all add: ex_bytes_def)
  have "unat (of_nat (of_char c) :: byte) = unat (of_nat (of_char d) :: byte)"
    using e by simp
  then have "(of_char c :: nat) = of_char d"
    by (simp add: unat_byte del: of_nat_add of_nat_mult)
  then have "c = d" by simp
  then show ?case using Cons.IH [of ds] \<open>ex_bytes cs = ex_bytes ds\<close> t by simp
qed

lemma ex_bytes_eq_iff: "ex_bytes s = ex_bytes t \<longleftrightarrow> s = t"
  using ex_bytes_inj by blast


section \<open>The example environment: conversions, keys and literals\<close>

lemma ex_env_fields [simp]:
  "number_truthy ex_env = (\<lambda>n. n \<noteq> 0)"
  "number_toString ex_env = int_decimal"
  "object_toBase64Url ex_env = (\<lambda>j. b64_encode (ex_bytes (ex_stringify j)))"
  "uint8Array_toBase64Url ex_env = b64_encode"
  "string_toUint8Array ex_env = ex_bytes"
  "base64Url_toObject ex_env = ex_toObject"
  "base64Url_toUint8Array ex_env = ex_toUint8Array"
  "jwkToCryptoKey ex_env = ex_jwkToCryptoKey"
  "signer_sign ex_env = (\<lambda>a opts key data. Inr (ex_signature key data))"
  "signer_verify ex_env = (\<lambda>a opts key data sig. Inr (sig = ex_signature key data))"
  "deferenceDidUrl ex_env = ex_resolve"
  "json_quote ex_env = ex_quote"
  by (simp_all add: ex_env_def)

lemma ex_issued_env_fields [simp]:
  "uint8Array_toBase64Url (ex_issued_env d0 s0) = b64_encode"
  "string_toUint8Array (ex_issued_env d0 s0) = ex_bytes"
  "base64Url_toObject (ex_issued_env d0 s0) = ex_toObject"
  "base64Url_toUint8Array (ex_issued_env d0 s0) = ex_toUint8Array"
  "jwkToCryptoKey (ex_issued_env d0 s0) = ex_jwkToCryptoKey"
  "signer_verify (ex_issued_env d0 s0)
     = (\<lambda>a opts key data' sb'. Inr (data' = d0 \<and> sb' = s0))"
  "deferenceDidUrl (ex_issued_env d0 s0) = ex_resolve"
  by (simp_all add: ex_issued_env_def ex_env_def)

lemma find_by_image:
  "distinct (map f xs) \<Longrightarrow> j \<in> set xs \<Longrightarrow> find (\<lambda>x. f x = f j) xs = Some j"
  by (induction xs) auto

lemma ex_documents_distinct: "distinct (map ex_stringify ex_documents)"
  by (simp add: ex_documents_def ex_header_def ex_quote_def)

lemma ex_toObject_roundtrip:
  assumes "j \<in> set ex_documents"
  shows "ex_toObject (b64_encode (ex_bytes (ex_stringify j))) = Inr j"
  using find_by_image [OF ex_documents_distinct assms]
  by (simp add: ex_toObject_def b64_decode_encode ex_bytes_eq_iff)

lemma ex_toUint8Array_roundtrip: "ex_toUint8Array (b64_encode bs) = Inr bs"
  by (simp add: ex_toUint8Array_def b64_decode_encode)


lemma ex_keys [simp]:
  "jwk_alg (ex_private a c x) = a" "jwk_crv (ex_private a c x) = c"
  "jwk_alg (ex_key a c x) = a" "jwk_crv (ex_key a c x) = c"
  "ex_jwkToCryptoKey (ex_private a c x) = Inr x"
  "ex_jwkToCryptoKey ((ex_key a c x)\<lparr>jwk_ext := e, jwk_key_ops := k\<rparr>) = Inr x"
  by (simp_all add: ex_private_def ex_key_def ex_jwkToCryptoKey_def)

lemma ex_empty_object: "b64_encode (ex_bytes (ex_stringify (JObj []))) = ''e30''"
  by (simp add: ex_bytes_def b64_char_def base64url_alphabet_def)

lemma ex_null: "b64_encode (ex_bytes (ex_stringify JNull)) = ''bnVsbA''"
  by (simp add: ex_bytes_def b64_char_def base64url_alphabet_def)

lemma ex_toObject_e30: "ex_toObject ''e30'' = Inr (JObj [])"
  using ex_toObject_roundtrip [of "JObj []"] unfolding ex_empty_object
  by (simp add: ex_documents_def)

lemma ex_toObject_null: "ex_toObject ''bnVsbA'' = Inr JNull"
  using ex_toObject_roundtrip [of JNull] unfolding ex_null
  by (simp add: ex_documents_def)

lemma ex_AQID: "b64_encode [1, 2, 3] = ''AQID''"
  by (simp add: b64_char_def base64url_alphabet_def)

lemma ex_ES256_header:
  "b64_encode (ex_bytes (ex_stringify (ex_header ''ES256'' ''did:example:bob#key-1'')))
     = ''eyJhbGciOiJFUzI1NiIsImtpZCI6ImRpZDpleGFtcGxlOmJvYiNrZXktMSJ9''"
  by (simp add: ex_header_def ex_quote_def ex_bytes_def b64_char_def base64url_alphabet_def)






section \<open>C1: signing, then verifying\<close>



text \<open>
  The hypothesis on the curve of the public key is needed. A public key that declares no
  curve gives an identifier that ends in \<^verbatim>\<open>undefined\<close>, which is never registered,
  and verification ends at line 228 whatever the signature is.
\<close>

lemma verify_without_public_curve:
  assumes "jws_segments env opts = Inr (h, p, s)"
    and "jws_header env h = Inr (JStr a, k)"
    and "deferenceDidUrl env k = Inr (VerificationMethod (Some pk))"
    and "jwk_crv pk = None"
    and "base64Url_toUint8Array env s = Inr sb"
  shows "verify env opts = ([DereferenceDidUrl k], Inl TypeError)"
proof -
  have "algorithms (a @ '':'' @ ''undefined'') = None"
  proof (cases "algorithms (a @ '':'' @ ''undefined'')")
    case None
    then show ?thesis .
  next
    case (Some d)
    then show ?thesis using algorithms_cases [OF Some] by simp
  qed
  moreover have "verify_algorithmId env (JStr a) pk = Some (a @ '':'' @ ''undefined'')"
    using assms(4) by (simp add: verify_algorithmId_def)
  ultimately show ?thesis
    using assms by (simp add: verify_def verify_checks_def isVerificationMethod_def)
qed

section \<open>C2: verifying under an algorithm that is not registered\<close>

text \<open>
  C2. The claim is that a verification call whose registry identifier, made of the
  header's \<^verbatim>\<open>alg\<close> and the public key's \<^verbatim>\<open>crv\<close>, is absent from the registry
  fails with \<open>UnsupportedAlgorithm\<close>. The code does otherwise: line 228 destructures the
  result of the lookup without the test that \<^verbatim>\<open>sign\<close> makes at line 154, so a call
  that reaches the lookup with an absent identifier ends in the runtime's \<open>TypeError\<close>,
  after the DID has been resolved and before the key is converted.
\<close>

theorem verify_unregistered_algorithm:
  assumes "jws_segments env opts = Inr (h, p, s)"
    and "jws_header env h = Inr (a, k)"
    and "deferenceDidUrl env k = Inr (VerificationMethod (Some pk))"
    and "base64Url_toUint8Array env s = Inr sb"
    and "verify_algorithmId env a pk = Some aid"
    and "algorithms aid = None"
  shows "verify env opts = ([DereferenceDidUrl k], Inl TypeError)"
  using assms
  by (simp add: verify_def verify_checks_def isVerificationMethod_def)

text \<open>
  The header of the example is \<^verbatim>\<open>{"alg":"ES256","kid":"did:example:bob#key-1"}\<close>;
  the public key of \<^verbatim>\<open>did:example:bob#key-1\<close> declares the curve \<^verbatim>\<open>secp256k1\<close>,
  and \<^verbatim>\<open>ES256:secp256k1\<close> is not registered.
\<close>

theorem verify_unregistered_algorithm_witness:
  "verify ex_env \<lparr>detachedPayload = None,
      signature = ''eyJhbGciOiJFUzI1NiIsImtpZCI6ImRpZDpleGFtcGxlOmJvYiNrZXktMSJ9.AQID.AQID''\<rparr>
     = ([DereferenceDidUrl (JStr ''did:example:bob#key-1'')], Inl TypeError)"
proof -
  let ?h = "''eyJhbGciOiJFUzI1NiIsImtpZCI6ImRpZDpleGFtcGxlOmJvYiNrZXktMSJ9''"
  let ?opts = "\<lparr>detachedPayload = None, signature = ?h @ ''.AQID.AQID''\<rparr>"
  have "jws_segments ex_env
          \<lparr>detachedPayload = None, signature = ?h @ ''.'' @ ''AQID'' @ ''.'' @ ''AQID''\<rparr>
        = Inr (?h, ''AQID'', ''AQID'')"
    by (rule segments_attached) simp_all
  then have seg: "jws_segments ex_env ?opts = Inr (?h, ''AQID'', ''AQID'')"
    by simp
  have "base64Url_toObject ex_env ?h = Inr (ex_header ''ES256'' ''did:example:bob#key-1'')"
    using ex_toObject_roundtrip [of "ex_header ''ES256'' ''did:example:bob#key-1''"]
    unfolding ex_ES256_header by (simp add: ex_documents_def)
  then have hdr: "jws_header ex_env ?h = Inr (JStr ''ES256'', JStr ''did:example:bob#key-1'')"
    by (simp add: jws_header_def ex_header_def)
  have res: "deferenceDidUrl ex_env (JStr ''did:example:bob#key-1'')
          = Inr (VerificationMethod (Some (ex_key None (Some ''secp256k1'') ''bob'')))"
    by (simp add: ex_resolve_def)
  have sb: "base64Url_toUint8Array ex_env ''AQID'' = Inr [1, 2, 3]"
    using ex_toUint8Array_roundtrip [of "[1, 2, 3]"] unfolding ex_AQID by simp
  have aid: "verify_algorithmId ex_env (JStr ''ES256'') (ex_key None (Some ''secp256k1'') ''bob'')
          = Some ''ES256:secp256k1''"
    by (simp add: verify_algorithmId_def)
  have none: "algorithms ''ES256:secp256k1'' = None"
    by (simp add: algorithms_def)
  show ?thesis
    using verify_unregistered_algorithm [OF seg hdr res sb aid none] by simp
qed

section \<open>C3: signing with an algorithm that is not registered\<close>

text \<open>
  C3. The registry identifier of a signing call is the \<^verbatim>\<open>alg\<close> of the private key, a
  colon and the \<^verbatim>\<open>crv\<close> of the private key, a missing member counting as the empty
  string. When the registry has no entry under that identifier, signing fails with
  \<open>UnsupportedAlgorithm\<close> naming the identifier, and no collaborator has been called:
  neither the key conversion nor the signature primitive. When the registry has an entry,
  signing does not fail with \<open>UnsupportedAlgorithm\<close> and goes on to the key conversion.
\<close>

theorem sign_unsupported_algorithm:
  fixes a c :: "string option"
  defines "algorithmId \<equiv>
     (case a of None \<Rightarrow> [] | Some s \<Rightarrow> s) @ '':'' @ (case c of None \<Rightarrow> [] | Some s \<Rightarrow> s)"
  assumes "jwk_alg (privateKeyJwk opts) = a" and "jwk_crv (privateKeyJwk opts) = c"
  shows "(algorithms algorithmId = None \<longrightarrow>
            sign env opts = ([], Inl (UnsupportedAlgorithm algorithmId))) \<and>
         (algorithms algorithmId \<noteq> None \<longrightarrow>
            fst (sign env opts) \<noteq> [] \<and>
            (\<forall>x. snd (sign env opts) \<noteq> Inl (UnsupportedAlgorithm x)))"
  using assms
  by (auto simp: sign_def or_empty_def Let_def split: option.splits sum.splits)

theorem sign_unsupported_algorithm_witness:
  "sign ex_env \<lparr>detached = False, payload = [1, 2, 3],
      privateKeyJwk = ex_private (Some ''RS256'') None ''abc'', kid = ''did:example:abc#key-1''\<rparr>
     = ([], Inl (UnsupportedAlgorithm ''RS256:'')) \<and>
   sign ex_env \<lparr>detached = False, payload = [1, 2, 3],
      privateKeyJwk = ex_private None None ''abc'', kid = ''did:example:abc#key-1''\<rparr>
     = ([], Inl (UnsupportedAlgorithm '':'')) \<and>
   fst (sign ex_env \<lparr>detached = False, payload = [1, 2, 3],
      privateKeyJwk = ex_private None (Some ''secp256k1'') ''bob'',
      kid = ''did:example:bob#key-1''\<rparr>) \<noteq> []"
  using
    sign_unsupported_algorithm [of "\<lparr>detached = False, payload = [1, 2, 3],
      privateKeyJwk = ex_private (Some ''RS256'') None ''abc'', kid = ''did:example:abc#key-1''\<rparr>"
      "Some ''RS256''" None ex_env]
    sign_unsupported_algorithm [of "\<lparr>detached = False, payload = [1, 2, 3],
      privateKeyJwk = ex_private None None ''abc'', kid = ''did:example:abc#key-1''\<rparr>"
      None None ex_env]
    sign_unsupported_algorithm [of "\<lparr>detached = False, payload = [1, 2, 3],
      privateKeyJwk = ex_private None (Some ''secp256k1'') ''bob'',
      kid = ''did:example:bob#key-1''\<rparr>"
      None "Some ''secp256k1''" ex_env]
  by (simp add: ex_private_def ex_key_def algorithms_def)

section \<open>C4: the first two checks of verification\<close>

text \<open>
  C4. Verifying the empty signature fails with \<open>MissingSignature\<close>. Verifying a
  signature that is not empty and that does not split on the dot into exactly three
  segments fails with \<open>MalformedSignature\<close>. In both cases no collaborator is called,
  so no DID is resolved. This holds whether or not a detached payload is given.
\<close>

theorem verify_missing_or_malformed:
  "verify env \<lparr>detachedPayload = dp, signature = []\<rparr> = ([], Inl MissingSignature) \<and>
   (s \<noteq> [] \<and> length (js_split (CHR ''.'') s) \<noteq> 3 \<longrightarrow>
      verify env \<lparr>detachedPayload = dp, signature = s\<rparr> = ([], Inl MalformedSignature))"
  by (simp add: verify_def verify_checks_def jws_segments_def)

theorem verify_missing_or_malformed_witness:
  "verify ex_env \<lparr>detachedPayload = None, signature = []\<rparr> = ([], Inl MissingSignature) \<and>
   verify ex_env \<lparr>detachedPayload = None, signature = ''a.b''\<rparr>
     = ([], Inl MalformedSignature) \<and>
   verify ex_env \<lparr>detachedPayload = None, signature = ''a.b.c.d''\<rparr>
     = ([], Inl MalformedSignature)"
  using verify_missing_or_malformed [of ex_env None "''a.b''"]
    verify_missing_or_malformed [of ex_env None "''a.b.c.d''"]
  by simp

section \<open>C5: the detached round trip\<close>



section \<open>C6: the detached payload\<close>



section \<open>C7: the header\<close>

text \<open>
  C7, as amended. Take a verification call whose signature splits into three segments and
  that passes the check of the detached payload (no detached payload is given, or the
  payload segment is empty), and let the header segment decode to a JSON value other than
  \<^verbatim>\<open>null\<close>. If that value lacks a truthy \<^verbatim>\<open>alg\<close> or a truthy \<^verbatim>\<open>kid\<close> (absent or
  empty), verification fails with \<open>MalformedHeader\<close>, and no collaborator has been
  called: the DID is not resolved.
\<close>

theorem verify_malformed_header:
  assumes "js_split (CHR ''.'') (signature opts) = [h, p, s]"
    and "detachedPayload opts = None \<or> p = []"
    and "base64Url_toObject env h = Inr hdr"
    and "hdr \<noteq> JNull"
    and "lacks_member env hdr ''alg'' \<or> lacks_member env hdr ''kid''"
  shows "verify env opts = ([], Inl MalformedHeader)"
proof -
  obtain p' where "jws_segments env opts = Inr (h, p', s)"
    using jws_segments_three [OF assms(1), of env] assms(2)
    by (cases "detachedPayload opts") auto
  then show ?thesis
    using jws_header_lacks [OF assms(3-5)]
    by (simp add: verify_def verify_checks_def)
qed

theorem verify_malformed_header_witness:
  "verify ex_env \<lparr>detachedPayload = None, signature = ''e30.AQID.AQID''\<rparr>
     = ([], Inl MalformedHeader) \<and>
   verify ex_env \<lparr>detachedPayload = Some [1, 2, 3], signature = ''e30..AQID''\<rparr>
     = ([], Inl MalformedHeader)"
proof -
  have a: "js_split (CHR ''.'') ''e30.AQID.AQID'' = [''e30'', ''AQID'', ''AQID'']" by simp
  have b: "js_split (CHR ''.'') ''e30..AQID'' = [''e30'', [], ''AQID'']" by simp
  have c: "base64Url_toObject ex_env ''e30'' = Inr (JObj [])"
    by (simp add: ex_toObject_e30)
  have d: "lacks_member ex_env (JObj []) ''alg'' \<or> lacks_member ex_env (JObj []) ''kid''"
    by (simp add: lacks_member_def)
  show ?thesis
    using verify_malformed_header
            [of "\<lparr>detachedPayload = None, signature = ''e30.AQID.AQID''\<rparr>"
                "''e30''" "''AQID''" "''AQID''" ex_env "JObj []"]
          verify_malformed_header
            [of "\<lparr>detachedPayload = Some [1, 2, 3], signature = ''e30..AQID''\<rparr>"
                "''e30''" "[]" "''AQID''" ex_env "JObj []"]
          a b c d
    by simp
qed

text \<open>
  The claim as it was stated fails where a detached payload is given and the payload
  segment is not empty: the header segment \<^verbatim>\<open>e30\<close> decodes to the empty object, which
  has neither \<^verbatim>\<open>alg\<close> nor \<^verbatim>\<open>kid\<close>, and the error is \<open>MalformedSignature\<close>, thrown
  by the earlier check of line 200.
\<close>

theorem verify_malformed_header_counterexample:
  "js_split (CHR ''.'') ''e30.AQID.AQID'' = [''e30'', ''AQID'', ''AQID''] \<and>
   base64Url_toObject ex_env ''e30'' = Inr (JObj []) \<and>
   lacks_member ex_env (JObj []) ''alg'' \<and>
   verify ex_env \<lparr>detachedPayload = Some [], signature = ''e30.AQID.AQID''\<rparr>
     = ([], Inl MalformedSignature)"
  by (simp add: ex_toObject_e30 lacks_member_def verify_def verify_checks_def jws_segments_def)

text \<open>
  A header segment that decodes to \<^verbatim>\<open>null\<close> (\<^verbatim>\<open>bnVsbA\<close>) is outside the amended
  claim: line 207 reads a property of \<^verbatim>\<open>null\<close>, and the runtime throws.
\<close>

lemma verify_null_header:
  "base64Url_toObject ex_env ''bnVsbA'' = Inr JNull \<and>
   verify ex_env \<lparr>detachedPayload = None, signature = ''bnVsbA.AQID.AQID''\<rparr>
     = ([], Inl TypeError)"
  by (simp add: ex_toObject_null verify_def verify_checks_def jws_segments_def jws_header_def)

section \<open>C8: the digest and the order of fields\<close>

text \<open>
  C8. The digest is a function of its input: equal inputs give equal bytes. It does not
  depend on the order of fields: two values that are the same up to the order of fields,
  such as \<^verbatim>\<open>{a:1,b:2}\<close> and \<^verbatim>\<open>{b:2,a:1}\<close>, have the same digest. The digest is the
  output of the hash, so it has 32 bytes when the hash gives 32 bytes.
\<close>

theorem digest_field_order:
  assumes "same_fields v w"
  shows "digest env v = digest env w \<and>
         ((\<forall>bytes. length (sha256 env bytes) = 32) \<longrightarrow> length (digest env v) = 32)"
  using canonicalize_same_fields [OF assms, of "json_quote env" "number_toString env"]
  by (simp add: digest_def)

theorem digest_field_order_witness:
  "digest ex_env (JObj [(''a'', JNum 1), (''b'', JNum 2)])
     = digest ex_env (JObj [(''b'', JNum 2), (''a'', JNum 1)]) \<and>
   length (digest ex_env (JObj [(''a'', JNum 1), (''b'', JNum 2)])) = 32"
proof -
  have "same_fields (JObj [(''a'', JNum (1::int)), (''b'', JNum 2)])
          (JObj [(''b'', JNum 2), (''a'', JNum 1)])"
    by (rule same_object) (auto intro: same_refl)
  moreover have "\<forall>bytes. length (sha256 ex_env bytes) = 32"
    by (auto simp: ex_env_def min_def)
  ultimately show ?thesis
    using digest_field_order [of "JObj [(''a'', JNum 1), (''b'', JNum 2)]"
        "JObj [(''b'', JNum 2), (''a'', JNum 1)]" ex_env]
    by blast
qed

section \<open>C9: flipping one bit of a verified signature\<close>




section \<open>C10: a key identifier without a fragment\<close>

text \<open>
  C10. Verification never tests that the header's \<^verbatim>\<open>kid\<close> contains \<^verbatim>\<open>#\<close>. When
  every check of the pipeline (lines 186 to 242) passes on a signature whose \<^verbatim>\<open>kid\<close>
  is a string without \<^verbatim>\<open>#\<close>, verification succeeds and returns the whole \<^verbatim>\<open>kid\<close>
  unchanged.
\<close>

theorem verify_kid_without_fragment:
  assumes "verify_checks env opts = (cs, Inr (JStr k))" and "CHR ''#'' \<notin> set k"
  shows "verify env opts = (cs, Inr k)"
proof -
  have "takeWhile (\<lambda>x. x \<noteq> CHR ''#'') k = k"
    using assms(2) by (intro takeWhile_eq_all_conv [THEN iffD2]) auto
  then show ?thesis
    using assms(1) by (simp add: verify_def did_of_kid_def hd_js_split)
qed

theorem verify_kid_without_fragment_witness:
  "\<exists>sg cs. verify_checks ex_env \<lparr>detachedPayload = None, signature = sg\<rparr>
              = (cs, Inr (JStr ''did:example:carol'')) \<and>
           verify ex_env \<lparr>detachedPayload = None, signature = sg\<rparr>
              = (cs, Inr ''did:example:carol'')"
proof -
  let ?hdr = "ex_header ''ES256K'' ''did:example:carol''"
  let ?h = "b64_encode (ex_bytes (ex_stringify ?hdr))"
  let ?p = "b64_encode [1, 2, 3]"
  let ?data = "ex_bytes (?h @ ''.'' @ ?p)"
  let ?sb = "ex_signature ''carol'' ?data"
  let ?s = "b64_encode ?sb"
  let ?opts = "\<lparr>detachedPayload = None, signature = ?h @ ''.'' @ ?p @ ''.'' @ ?s\<rparr>"
  have seg: "jws_segments ex_env ?opts = Inr (?h, ?p, ?s)"
    by (intro segments_attached b64_encode_no_dot)
  have "verify_checks ex_env ?opts =
          ([DereferenceDidUrl (JStr ''did:example:carol''),
            JwkToCryptoKey ((ex_key None (Some ''secp256k1'') ''carol'')
              \<lparr>jwk_ext := Some ''true'', jwk_key_ops := Some [''verify'']\<rparr>),
            SignerVerify (signer secp256k1Signer) (options secp256k1Signer) ''carol''
              (string_toUint8Array ex_env (?h @ ''.'' @ ?p)) ?sb],
           if True then Inr (JStr ''did:example:carol'') else Inl IntegrityMismatch)"
  proof (rule verify_checks_signed [OF seg, where a = "[]" and c = "''secp256k1''"
        and pc = "''secp256k1''"])
    show "base64Url_toObject ex_env ?h
            = Inr (JObj [(''alg'', JStr (alg secp256k1Signer)), (''kid'', JStr ''did:example:carol'')])"
      using ex_toObject_roundtrip [of ?hdr]
      by (simp add: ex_documents_def) (simp add: ex_header_def)
    show "algorithms ([] @ '':'' @ ''secp256k1'') = Some secp256k1Signer"
      by (simp add: algorithms_entries)
    show "algorithms (alg secp256k1Signer @ '':'' @ ''secp256k1'') \<noteq> None"
      by (simp add: algorithms_entries)
    show "deferenceDidUrl ex_env (JStr ''did:example:carol'')
            = Inr (VerificationMethod (Some (ex_key None (Some ''secp256k1'') ''carol'')))"
      by (simp add: ex_resolve_def)
  qed (simp_all add: ex_toUint8Array_roundtrip del: b64_encode.simps)
  then have vc: "verify_checks ex_env ?opts =
          ([DereferenceDidUrl (JStr ''did:example:carol''),
            JwkToCryptoKey ((ex_key None (Some ''secp256k1'') ''carol'')
              \<lparr>jwk_ext := Some ''true'', jwk_key_ops := Some [''verify'']\<rparr>),
            SignerVerify (signer secp256k1Signer) (options secp256k1Signer) ''carol''
              (string_toUint8Array ex_env (?h @ ''.'' @ ?p)) ?sb],
           Inr (JStr ''did:example:carol''))"
    by (simp only: if_True)
  have "CHR ''#'' \<notin> set ''did:example:carol''" by simp
  from verify_kid_without_fragment [OF vc this] vc show ?thesis by blast
qed

end
